theory Spec2Isabelle
  imports Complex_Main "HOL-Library.Word"
begin

section \<open>Camera stabilisation module (flight/Modules/CameraStab/camerastab.c)\<close>

text \<open>
  The module is a periodic callback, \<open>attitudeUpdated\<close>, that turns the vehicle attitude
  and the manual control inputs into three normalised gimbal commands. The embedding follows
  the C text function by function and line by line.

  Conventions of the embedding:
  \<^item> a C \<open>float\<close> is a \<open>real\<close>: arithmetic is exact, so rounding, infinities and NaN are
    outside the model; a division whose divisor is zero is only reasoned about under a
    hypothesis that excludes it;
  \<^item> the three array slots \<open>CAMERASTABSETTINGS_INPUT_ROLL/PITCH/YAW\<close> are the datatype
    \<open>axis\<close>; a per-axis C array is a function from \<open>axis\<close>. The loop
    \<open>for (i = 0; i < CAMERASTABSETTINGS_INPUT_NUMELEM; i++)\<close> visits exactly these slots
    in this order, so the \<open>default: PIOS_Assert(0)\<close> arms of the two \<open>switch (i)\<close>
    statements are never entered; \<open>CAMERASTABSETTINGS_OUTPUTRANGE_PITCH/ROLL\<close> index the
    same slots of \<open>OutputRange\<close>;
  \<^item> the settings enumerations carry one extra constructor for every value the C
    \<open>switch\<close> sends to \<open>default: PIOS_Assert(0)\<close>; a failed assertion is the error value
    \<open>PIOS_Assert_failed\<close>, after which the firmware halts and no state is returned;
  \<^item> the settings fields that the C text converts with an explicit \<open>(float)\<close> cast
    (\<open>ResponseTime\<close>, \<open>FeedForward\<close>, \<open>AccelTime\<close>, \<open>DecelTime\<close>, \<open>MaxAccel\<close>) are
    unsigned integer fields, modelled as \<open>nat\<close> and converted with \<open>real\<close>; the fields used
    directly in float arithmetic are \<open>real\<close>;
  \<^item> \<open>portTickType\<close> is the 32-bit unsigned tick counter; \<open>portTICK_RATE_MS\<close> and the two
    compile-time switches \<open>USE_GIMBAL_LPF\<close>, \<open>USE_GIMBAL_FF\<close> come from the build
    configuration and are parameters of the model.
\<close>

subsection \<open>Data\<close>

datatype axis = INPUT_ROLL | INPUT_PITCH | INPUT_YAW

text \<open>\<open>INPUT_ACCESSORY n\<close> is the setting whose value is \<open>CAMERASTABSETTINGS_INPUT_ACCESSORY0 + n\<close>,
  so \<open>n\<close> is the instance passed to \<open>AccessoryDesiredInstGet\<close>.\<close>

datatype input_source = INPUT_NONE | INPUT_ACCESSORY nat

datatype stabilization_mode =
  STABILIZATIONMODE_ATTITUDE | STABILIZATIONMODE_AXISLOCK | STABILIZATIONMODE_UNKNOWN

datatype gimbal_type =
  GIMBALTYPE_GENERIC | GIMBALTYPE_YAWROLLPITCH | GIMBALTYPE_YAWPITCHROLL | GIMBALTYPE_UNKNOWN

datatype error = PIOS_Assert_failed

record CameraStabSettingsData =
  Input :: "axis \<Rightarrow> input_source"
  InputRange :: "axis \<Rightarrow> real"
  InputRate :: "axis \<Rightarrow> real"
  StabilizationMode :: "axis \<Rightarrow> stabilization_mode"
  OutputRange :: "axis \<Rightarrow> real"
  ResponseTime :: "axis \<Rightarrow> nat"
  GimbalType :: gimbal_type
  FeedForward :: "axis \<Rightarrow> nat"
  AccelTime :: "axis \<Rightarrow> nat"
  DecelTime :: "axis \<Rightarrow> nat"
  MaxAxisLockRate :: real
  MaxAccel :: nat

text \<open>\<open>struct CameraStab_data\<close>, the state kept between two calls.\<close>

record CameraStab_data =
  lastSysTime :: "32 word"
  inputs :: "axis \<Rightarrow> real"
  attitudeFiltered :: "axis \<Rightarrow> real"
  ffLastAttitude :: "axis \<Rightarrow> real"
  ffLastAttitudeFiltered :: "axis \<Rightarrow> real"
  ffFilterAccumulator :: "axis \<Rightarrow> real"

text \<open>What one call reads from outside: the tick counter (\<open>xTaskGetTickCount\<close>), the
  attitude object (\<open>AttitudeActualRollGet\<close>, \<open>...PitchGet\<close>, \<open>...YawGet\<close>) and the accessory
  instances: \<open>AccessoryDesired n = Some v\<close> when \<open>AccessoryDesiredInstGet\<close> returns 0 with
  \<open>AccessoryVal = v\<close>, \<open>None\<close> when it returns anything else.\<close>

record bus =
  xTaskGetTickCount :: "32 word"
  AttitudeActual :: "axis \<Rightarrow> real"
  AccessoryDesired :: "nat \<Rightarrow> real option"

record build_config =
  USE_GIMBAL_LPF :: bool
  USE_GIMBAL_FF :: bool
  portTICK_RATE_MS :: "32 word"

definition SAMPLE_PERIOD_MS :: nat where
  "SAMPLE_PERIOD_MS = 10"

subsection \<open>\<open>bound\<close> (lines 233-238)\<close>

definition bound :: "real \<Rightarrow> real \<Rightarrow> real" where
  "bound val limit =
     (if val > limit then limit
      else if val < - limit then - limit
      else val)"

subsection \<open>\<open>applyFeedForward\<close> (lines 241-292)\<close>

text \<open>Lines 244-268: the \<open>switch (cameraStab->GimbalType)\<close> that sets the local
  \<open>gimbalTypeCorrection\<close>.\<close>

definition gimbalTypeCorrection ::
  "CameraStabSettingsData \<Rightarrow> bus \<Rightarrow> axis \<Rightarrow> error + real" where
  "gimbalTypeCorrection cameraStab b index =
     (case GimbalType cameraStab of
        GIMBALTYPE_GENERIC \<Rightarrow> Inr 1
      | GIMBALTYPE_YAWROLLPITCH \<Rightarrow>
          (if index = INPUT_ROLL then
             (let pitch = AttitudeActual b INPUT_PITCH
              in Inr ((OutputRange cameraStab INPUT_PITCH - \<bar>pitch\<bar>)
                        / OutputRange cameraStab INPUT_PITCH))
           else Inr 1)
      | GIMBALTYPE_YAWPITCHROLL \<Rightarrow>
          (if index = INPUT_PITCH then
             (let roll = AttitudeActual b INPUT_ROLL
              in Inr ((OutputRange cameraStab INPUT_ROLL - \<bar>roll\<bar>)
                        / OutputRange cameraStab INPUT_ROLL))
           else Inr 1)
      | GIMBALTYPE_UNKNOWN \<Rightarrow> Inl PIOS_Assert_failed)"

text \<open>The whole function: it returns the updated state and the new value of \<open>*attitude\<close>.\<close>

definition applyFeedForward ::
  "CameraStabSettingsData \<Rightarrow> bus \<Rightarrow> axis \<Rightarrow> real \<Rightarrow> real \<Rightarrow> CameraStab_data
     \<Rightarrow> error + (CameraStab_data \<times> real)" where
  "applyFeedForward cameraStab b index dT attitude csd =
     (case gimbalTypeCorrection cameraStab b index of
        Inl e \<Rightarrow> Inl e
      | Inr correction \<Rightarrow>
          (let accumulator0 = ffFilterAccumulator csd index;
               accumulator1 = accumulator0
                 + (attitude - ffLastAttitude csd index)
                     * real (FeedForward cameraStab index) * correction;
               csd1 = csd\<lparr>ffLastAttitude := (ffLastAttitude csd)(index := attitude)\<rparr>;
               attitude1 = attitude + accumulator1;
               filter0 = real (if accumulator1 > 0 then AccelTime cameraStab index
                               else DecelTime cameraStab index) / dT;
               filter = (if filter0 < 1 then 1 else filter0);
               accumulator2 = accumulator1 - accumulator1 / filter;
               csd2 = csd1\<lparr>ffFilterAccumulator :=
                              (ffFilterAccumulator csd1)(index := accumulator2)\<rparr>;
               attitude2 = attitude1 + accumulator2;
               delta = attitude2 - ffLastAttitudeFiltered csd2 index;
               maxDelta = real (MaxAccel cameraStab) * 0.001 * dT;
               attitude3 = (if \<bar>delta\<bar> > maxDelta
                            then ffLastAttitudeFiltered csd2 index
                                   + (if delta > 0 then maxDelta else - maxDelta)
                            else attitude2);
               csd3 = csd2\<lparr>ffLastAttitudeFiltered :=
                              (ffLastAttitudeFiltered csd2)(index := attitude3)\<rparr>
           in Inr (csd3, attitude3)))"

subsection \<open>\<open>attitudeUpdated\<close> (lines 147-231)\<close>

text \<open>Lines 158-161: the time since the last call, in milliseconds. The subtraction and the
  multiplication are those of the unsigned 32-bit tick type.\<close>

definition elapsed_dT :: "build_config \<Rightarrow> 32 word \<Rightarrow> 32 word \<Rightarrow> real" where
  "elapsed_dT cfg thisSysTime lastTime =
     (if thisSysTime > lastTime
      then real (unat ((thisSysTime - lastTime) * portTICK_RATE_MS cfg))
      else real SAMPLE_PERIOD_MS)"

text \<open>Lines 167-184: read and process the control input of axis \<open>i\<close>.\<close>

definition read_control_input ::
  "CameraStabSettingsData \<Rightarrow> bus \<Rightarrow> real \<Rightarrow> axis \<Rightarrow> CameraStab_data
     \<Rightarrow> error + CameraStab_data" where
  "read_control_input cameraStab b dT i csd =
     (case Input cameraStab i of
        INPUT_NONE \<Rightarrow> Inr csd
      | INPUT_ACCESSORY n \<Rightarrow>
          (case AccessoryDesired b n of
             None \<Rightarrow> Inr csd
           | Some AccessoryVal \<Rightarrow>
               (case StabilizationMode cameraStab i of
                  STABILIZATIONMODE_ATTITUDE \<Rightarrow>
                    Inr (csd\<lparr>inputs := (inputs csd)(i := AccessoryVal * InputRange cameraStab i)\<rparr>)
                | STABILIZATIONMODE_AXISLOCK \<Rightarrow>
                    (let input_rate = AccessoryVal * InputRate cameraStab i
                     in if \<bar>input_rate\<bar> > MaxAxisLockRate cameraStab
                        then Inr (csd\<lparr>inputs := (inputs csd)
                               (i := bound (inputs csd i + input_rate * 0.001 * dT)
                                       (InputRange cameraStab i))\<rparr>)
                        else Inr csd)
                | STABILIZATIONMODE_UNKNOWN \<Rightarrow> Inl PIOS_Assert_failed)))"

text \<open>Line 206, the right-hand side: one step of the low-pass filter, as a function of the
  stored value.\<close>

definition lpf :: "nat \<Rightarrow> real \<Rightarrow> real \<Rightarrow> real \<Rightarrow> real" where
  "lpf ResponseTime_i dT attitude filtered =
     (let rt = real ResponseTime_i
      in ((rt * filtered) + (dT * attitude)) / (rt + dT))"

text \<open>Lines 186-213: read the attitude of axis \<open>i\<close>, filter it, apply the feed forward.
  The condition \<open>if (cameraStab.ResponseTime)\<close> of line 204 tests the array itself, which is
  never a null pointer, so with \<open>USE_GIMBAL_LPF\<close> the filter line always runs.\<close>

definition calculate_servo_output ::
  "build_config \<Rightarrow> CameraStabSettingsData \<Rightarrow> bus \<Rightarrow> real \<Rightarrow> axis \<Rightarrow> CameraStab_data
     \<Rightarrow> error + (CameraStab_data \<times> real)" where
  "calculate_servo_output cfg cameraStab b dT i csd =
     (let attitude0 = AttitudeActual b i;
          attitude1 = (if USE_GIMBAL_LPF cfg
                       then lpf (ResponseTime cameraStab i) dT attitude0 (attitudeFiltered csd i)
                       else attitude0);
          csd1 = (if USE_GIMBAL_LPF cfg
                  then csd\<lparr>attitudeFiltered := (attitudeFiltered csd)(i := attitude1)\<rparr>
                  else csd)
      in if USE_GIMBAL_FF cfg \<and> FeedForward cameraStab i \<noteq> 0
         then applyFeedForward cameraStab b i dT attitude1 csd1
         else Inr (csd1, attitude1))"

text \<open>The loop body, lines 166-229. The second component of the state is the output object
  written by \<open>CameraDesiredRollSet\<close>, \<open>CameraDesiredPitchSet\<close> and \<open>CameraDesiredYawSet\<close>.\<close>

definition process_axis ::
  "build_config \<Rightarrow> CameraStabSettingsData \<Rightarrow> bus \<Rightarrow> real \<Rightarrow> axis
     \<Rightarrow> CameraStab_data \<times> (axis \<Rightarrow> real) \<Rightarrow> error + (CameraStab_data \<times> (axis \<Rightarrow> real))" where
  "process_axis cfg cameraStab b dT i s =
     (case read_control_input cameraStab b dT i (fst s) of
        Inl e \<Rightarrow> Inl e
      | Inr csd1 \<Rightarrow>
          (case calculate_servo_output cfg cameraStab b dT i csd1 of
             Inl e \<Rightarrow> Inl e
           | Inr (csd2, attitude) \<Rightarrow>
               (let output = bound ((attitude + inputs csd2 i) / OutputRange cameraStab i) 1
                in Inr (csd2, (snd s)(i := output)))))"

fun process_axes ::
  "build_config \<Rightarrow> CameraStabSettingsData \<Rightarrow> bus \<Rightarrow> real \<Rightarrow> axis list
     \<Rightarrow> CameraStab_data \<times> (axis \<Rightarrow> real) \<Rightarrow> error + (CameraStab_data \<times> (axis \<Rightarrow> real))" where
  "process_axes cfg cameraStab b dT [] s = Inr s"
| "process_axes cfg cameraStab b dT (i # rest) s =
     (case process_axis cfg cameraStab b dT i s of
        Inl e \<Rightarrow> Inl e
      | Inr s' \<Rightarrow> process_axes cfg cameraStab b dT rest s')"

text \<open>The callback. \<open>ev_is_attitude\<close> is the test \<open>ev->obj == AttitudeActualHandle()\<close>; the
  settings are the snapshot taken by \<open>CameraStabSettingsGet\<close>.\<close>

definition attitudeUpdated ::
  "build_config \<Rightarrow> CameraStabSettingsData \<Rightarrow> bus \<Rightarrow> bool
     \<Rightarrow> CameraStab_data \<times> (axis \<Rightarrow> real) \<Rightarrow> error + (CameraStab_data \<times> (axis \<Rightarrow> real))" where
  "attitudeUpdated cfg cameraStab b ev_is_attitude s =
     (if \<not> ev_is_attitude then Inr s
      else
        (let thisSysTime = xTaskGetTickCount b;
             dT = elapsed_dT cfg thisSysTime (lastSysTime (fst s));
             csd1 = (fst s)\<lparr>lastSysTime := thisSysTime\<rparr>
         in process_axes cfg cameraStab b dT [INPUT_ROLL, INPUT_PITCH, INPUT_YAW]
              (csd1, snd s)))"

subsection \<open>Auxiliary definitions for the proofs\<close>

text \<open>The five state values that belong to axis \<open>i\<close>.\<close>

definition slot :: "axis \<Rightarrow> CameraStab_data \<Rightarrow> real \<times> real \<times> real \<times> real \<times> real" where
  "slot i csd =
     (inputs csd i, attitudeFiltered csd i, ffLastAttitude csd i,
      ffLastAttitudeFiltered csd i, ffFilterAccumulator csd i)"

text \<open>\<open>axis_done \<dots> i c0 cf cdf\<close>: the values of axis \<open>i\<close> in the final state \<open>cf\<close> and the
  command \<open>cdf i\<close> are those that the loop body of axis \<open>i\<close> produces from the state \<open>c0\<close>.\<close>

definition axis_done ::
  "build_config \<Rightarrow> CameraStabSettingsData \<Rightarrow> bus \<Rightarrow> real \<Rightarrow> axis
     \<Rightarrow> CameraStab_data \<Rightarrow> CameraStab_data \<Rightarrow> (axis \<Rightarrow> real) \<Rightarrow> bool" where
  "axis_done cfg cs b dT i c0 cf cdf \<longleftrightarrow>
     (\<exists>c1 c2 attitude.
        read_control_input cs b dT i c0 = Inr c1 \<and>
        calculate_servo_output cfg cs b dT i c1 = Inr (c2, attitude) \<and>
        slot i cf = slot i c2 \<and>
        cdf i = bound ((attitude + inputs cf i) / OutputRange cs i) 1)"

subsection \<open>Concrete configurations\<close>

text \<open>A build with both optional stages and one tick per millisecond.\<close>

definition example_build :: build_config where
  "example_build = \<lparr>USE_GIMBAL_LPF = True, USE_GIMBAL_FF = True, portTICK_RATE_MS = 1\<rparr>"

text \<open>A yaw-roll-pitch gimbal in axis-lock mode with feed forward on every axis. Roll reads
  accessory 0, pitch accessory 1, yaw accessory 2.\<close>

definition example_settings :: CameraStabSettingsData where
  "example_settings =
     \<lparr>Input = (\<lambda>i. case i of INPUT_ROLL \<Rightarrow> INPUT_ACCESSORY 0
                         | INPUT_PITCH \<Rightarrow> INPUT_ACCESSORY 1
                         | INPUT_YAW \<Rightarrow> INPUT_ACCESSORY 2),
      InputRange = (\<lambda>_. 30), InputRate = (\<lambda>_. 1),
      StabilizationMode = (\<lambda>_. STABILIZATIONMODE_AXISLOCK), OutputRange = (\<lambda>_. 50),
      ResponseTime = (\<lambda>_. 100), GimbalType = GIMBALTYPE_YAWROLLPITCH,
      FeedForward = (\<lambda>_. 2), AccelTime = (\<lambda>_. 20), DecelTime = (\<lambda>_. 20),
      MaxAxisLockRate = 1 / 2, MaxAccel = 500\<rparr>"

text \<open>Accessory 0 holds 0.8, accessory 1 holds 0.3, every other instance is missing.\<close>

definition example_bus :: bus where
  "example_bus =
     \<lparr>xTaskGetTickCount = 1025,
      AttitudeActual = (\<lambda>i. case i of INPUT_ROLL \<Rightarrow> 10 | INPUT_PITCH \<Rightarrow> 60 | INPUT_YAW \<Rightarrow> 0),
      AccessoryDesired = (\<lambda>n. if n = 0 then Some (8 / 10) else if n = 1 then Some (3 / 10) else None)\<rparr>"

text \<open>The state after \<open>memset\<close>, with the tick counter at 1000.\<close>

definition example_data :: CameraStab_data where
  "example_data =
     \<lparr>lastSysTime = 1000, inputs = (\<lambda>_. 0), attitudeFiltered = (\<lambda>_. 0),
      ffLastAttitude = (\<lambda>_. 0), ffLastAttitudeFiltered = (\<lambda>_. 0),
      ffFilterAccumulator = (\<lambda>_. 0)\<rparr>"

text \<open>No control input, no filtering delay, no feed forward, output range 50; the attitude
  is 25 on every axis and the stored input is 25.\<close>

definition mapper_settings :: CameraStabSettingsData where
  "mapper_settings =
     \<lparr>Input = (\<lambda>_. INPUT_NONE), InputRange = (\<lambda>_. 30), InputRate = (\<lambda>_. 1),
      StabilizationMode = (\<lambda>_. STABILIZATIONMODE_ATTITUDE), OutputRange = (\<lambda>_. 50),
      ResponseTime = (\<lambda>_. 0), GimbalType = GIMBALTYPE_GENERIC,
      FeedForward = (\<lambda>_. 0), AccelTime = (\<lambda>_. 5), DecelTime = (\<lambda>_. 5),
      MaxAxisLockRate = 1, MaxAccel = 500\<rparr>"

definition mapper_bus :: bus where
  "mapper_bus =
     \<lparr>xTaskGetTickCount = 1010, AttitudeActual = (\<lambda>_. 25), AccessoryDesired = (\<lambda>_. None)\<rparr>"

definition mapper_data :: CameraStab_data where
  "mapper_data =
     \<lparr>lastSysTime = 1000, inputs = (\<lambda>_. 25), attitudeFiltered = (\<lambda>_. 0),
      ffLastAttitude = (\<lambda>_. 0), ffLastAttitudeFiltered = (\<lambda>_. 0),
      ffFilterAccumulator = (\<lambda>_. 0)\<rparr>"

section \<open>Properties\<close>

subsection \<open>The concrete configurations, field by field\<close>

lemma example_build_sel [simp]:
  "USE_GIMBAL_LPF example_build" "USE_GIMBAL_FF example_build"
  "portTICK_RATE_MS example_build = 1"
  by (simp_all add: example_build_def)

lemma example_settings_sel [simp]:
  "Input example_settings INPUT_ROLL = INPUT_ACCESSORY 0"
  "Input example_settings INPUT_PITCH = INPUT_ACCESSORY 1"
  "Input example_settings INPUT_YAW = INPUT_ACCESSORY 2"
  "InputRange example_settings i = 30" "InputRate example_settings i = 1"
  "StabilizationMode example_settings i = STABILIZATIONMODE_AXISLOCK"
  "OutputRange example_settings i = 50" "ResponseTime example_settings i = 100"
  "GimbalType example_settings = GIMBALTYPE_YAWROLLPITCH"
  "FeedForward example_settings i = 2" "AccelTime example_settings i = 20"
  "DecelTime example_settings i = 20" "MaxAxisLockRate example_settings = 1 / 2"
  "MaxAccel example_settings = 500"
  by (simp_all add: example_settings_def)

lemma example_bus_sel [simp]:
  "xTaskGetTickCount example_bus = 1025"
  "AttitudeActual example_bus INPUT_ROLL = 10" "AttitudeActual example_bus INPUT_PITCH = 60"
  "AttitudeActual example_bus INPUT_YAW = 0"
  "AccessoryDesired example_bus 0 = Some (8 / 10)"
  "AccessoryDesired example_bus 1 = Some (3 / 10)"
  "AccessoryDesired example_bus 2 = None"
  by (simp_all add: example_bus_def)

lemma example_bus_accessory_1 [simp]: "AccessoryDesired example_bus (Suc 0) = Some (3 / 10)"
  by (simp add: example_bus_def)

lemma example_data_sel [simp]:
  "lastSysTime example_data = 1000" "inputs example_data i = 0"
  "attitudeFiltered example_data i = 0" "ffLastAttitude example_data i = 0"
  "ffLastAttitudeFiltered example_data i = 0" "ffFilterAccumulator example_data i = 0"
  by (simp_all add: example_data_def)

lemma mapper_settings_sel [simp]:
  "Input mapper_settings i = INPUT_NONE" "OutputRange mapper_settings i = 50"
  "ResponseTime mapper_settings i = 0" "GimbalType mapper_settings = GIMBALTYPE_GENERIC"
  "FeedForward mapper_settings i = 0"
  "StabilizationMode mapper_settings i = STABILIZATIONMODE_ATTITUDE"
  by (simp_all add: mapper_settings_def)

lemma mapper_bus_sel [simp]:
  "xTaskGetTickCount mapper_bus = 1010" "AttitudeActual mapper_bus i = 25"
  "AccessoryDesired mapper_bus n = None"
  by (simp_all add: mapper_bus_def)

lemma mapper_data_sel [simp]:
  "lastSysTime mapper_data = 1000" "inputs mapper_data i = 25"
  "attitudeFiltered mapper_data i = 0"
  by (simp_all add: mapper_data_def)

subsection \<open>The bounding utility\<close>

lemma bound_range: "0 \<le> limit \<Longrightarrow> - limit \<le> bound val limit \<and> bound val limit \<le> limit"
  by (simp add: bound_def)

lemma bound_abs: "0 \<le> limit \<Longrightarrow> \<bar>bound val limit\<bar> \<le> limit"
  unfolding bound_def by auto

lemma bound_ident: "\<bar>val\<bar> \<le> limit \<Longrightarrow> bound val limit = val"
  unfolding bound_def by auto

lemma bound_increase:
  assumes "0 < d" and "x \<le> L"
  shows "x \<le> bound (x + d) L \<and> (x < L \<longrightarrow> x < bound (x + d) L)
           \<and> (0 \<le> L \<longrightarrow> bound (x + d) L \<le> L)"
  using assms unfolding bound_def by auto

text \<open>
  Claim C10. \<open>bound v L\<close> is a function of its two arguments alone; for every \<open>v\<close> and every
  limit \<open>L \<ge> 0\<close> its result lies in \<open>[-L, L]\<close>, and it returns \<open>v\<close> itself whenever
  \<open>\<bar>v\<bar> \<le> L\<close>.
\<close>

theorem bound_clamps:
  "(0 \<le> L \<longrightarrow> - L \<le> bound v L \<and> bound v L \<le> L) \<and> (\<bar>v\<bar> \<le> L \<longrightarrow> bound v L = v)"
  using bound_range [of L v] bound_ident [of v L] by blast

theorem bound_clamps_witness:
  "(0::real) \<le> 2 \<and> - 2 \<le> bound 5 2 \<and> bound 5 2 \<le> 2 \<and> \<bar>1::real\<bar> \<le> 2 \<and> bound 1 2 = 1"
  using bound_clamps [of 2 5] bound_clamps [of 2 1] by simp

subsection \<open>The feed-forward compensator\<close>

lemma example_correction:
  "gimbalTypeCorrection example_settings example_bus INPUT_ROLL = Inr (- 1 / 5)"
  by (simp add: gimbalTypeCorrection_def)

lemma applyFeedForward_result:
  assumes "gimbalTypeCorrection cs b i = Inr g"
  shows "\<exists>csd' attitude'. applyFeedForward cs b i dT attitude csd = Inr (csd', attitude') \<and>
     (let acc1 = ffFilterAccumulator csd i
                   + (attitude - ffLastAttitude csd i) * real (FeedForward cs i) * g;
          timeConstant = real (if acc1 > 0 then AccelTime cs i else DecelTime cs i);
          acc2 = acc1 - acc1 / max 1 (timeConstant / dT);
          working = attitude + acc1 + acc2;
          delta = working - ffLastAttitudeFiltered csd i;
          maxDelta = real (MaxAccel cs) * dT / 1000
      in ffLastAttitude csd' i = attitude \<and>
         ffFilterAccumulator csd' i = acc2 \<and>
         attitude' = (if \<bar>delta\<bar> > maxDelta
                      then ffLastAttitudeFiltered csd i + (if delta > 0 then maxDelta else - maxDelta)
                      else working) \<and>
         ffLastAttitudeFiltered csd' i = attitude')"
  using assms by (simp add: applyFeedForward_def Let_def max_def not_less)



lemma applyFeedForward_inputs:
  "applyFeedForward cs b i dT a csd = Inr (csd', a') \<Longrightarrow> inputs csd' = inputs csd"
  by (auto simp add: applyFeedForward_def Let_def split: sum.splits)


text \<open>
  Claim C4. For a yaw-roll-pitch gimbal the correction factor of the roll axis is
  \<open>(OutputRange[Pitch] - \<bar>pitch\<bar>) / OutputRange[Pitch]\<close>; for a yaw-pitch-roll gimbal the
  factor of the pitch axis is the same expression in the roll attitude and the roll output
  range. The factor is 1 for a generic gimbal and for every other axis. It is not clamped:
  it is negative as soon as the attitude exceeds a positive output range, and
  \<open>applyFeedForward\<close> (for \<open>dT > 0\<close>) multiplies the attitude change by exactly this
  factor.
\<close>

theorem gimbal_correction:
  "(GimbalType cs = GIMBALTYPE_GENERIC \<longrightarrow> gimbalTypeCorrection cs b i = Inr 1) \<and>
   (GimbalType cs = GIMBALTYPE_YAWROLLPITCH \<longrightarrow>
      gimbalTypeCorrection cs b INPUT_ROLL
        = Inr ((OutputRange cs INPUT_PITCH - \<bar>AttitudeActual b INPUT_PITCH\<bar>)
                 / OutputRange cs INPUT_PITCH)
      \<and> (i \<noteq> INPUT_ROLL \<longrightarrow> gimbalTypeCorrection cs b i = Inr 1)
      \<and> (0 < OutputRange cs INPUT_PITCH
            \<and> OutputRange cs INPUT_PITCH < \<bar>AttitudeActual b INPUT_PITCH\<bar>
           \<longrightarrow> (\<exists>g < 0. gimbalTypeCorrection cs b INPUT_ROLL = Inr g))) \<and>
   (GimbalType cs = GIMBALTYPE_YAWPITCHROLL \<longrightarrow>
      gimbalTypeCorrection cs b INPUT_PITCH
        = Inr ((OutputRange cs INPUT_ROLL - \<bar>AttitudeActual b INPUT_ROLL\<bar>)
                 / OutputRange cs INPUT_ROLL)
      \<and> (i \<noteq> INPUT_PITCH \<longrightarrow> gimbalTypeCorrection cs b i = Inr 1)
      \<and> (0 < OutputRange cs INPUT_ROLL
            \<and> OutputRange cs INPUT_ROLL < \<bar>AttitudeActual b INPUT_ROLL\<bar>
           \<longrightarrow> (\<exists>g < 0. gimbalTypeCorrection cs b INPUT_PITCH = Inr g))) \<and>
   (\<forall>g. 0 < dT \<and> gimbalTypeCorrection cs b i = Inr g \<longrightarrow>
      (\<exists>csd' attitude'. applyFeedForward cs b i dT attitude csd = Inr (csd', attitude') \<and>
         (let acc1 = ffFilterAccumulator csd i
                       + (attitude - ffLastAttitude csd i) * real (FeedForward cs i) * g
          in ffFilterAccumulator csd' i
               = acc1 - acc1 / max 1 (real (if acc1 > 0 then AccelTime cs i
                                            else DecelTime cs i) / dT))))"
proof -
  have "\<exists>csd' attitude'. applyFeedForward cs b i dT attitude csd = Inr (csd', attitude') \<and>
         (let acc1 = ffFilterAccumulator csd i
                       + (attitude - ffLastAttitude csd i) * real (FeedForward cs i) * g
          in ffFilterAccumulator csd' i
               = acc1 - acc1 / max 1 (real (if acc1 > 0 then AccelTime cs i
                                            else DecelTime cs i) / dT))"
    if "gimbalTypeCorrection cs b i = Inr g" for g
    using applyFeedForward_result [OF that, of dT attitude csd] unfolding Let_def by blast
  then show ?thesis
    by (simp add: gimbalTypeCorrection_def divide_neg_pos)
qed

theorem gimbal_correction_witness:
  "GimbalType example_settings = GIMBALTYPE_YAWROLLPITCH \<and>
   0 < OutputRange example_settings INPUT_PITCH \<and>
   OutputRange example_settings INPUT_PITCH < \<bar>AttitudeActual example_bus INPUT_PITCH\<bar> \<and>
   gimbalTypeCorrection example_settings example_bus INPUT_ROLL = Inr (- 1 / 5) \<and>
   gimbalTypeCorrection example_settings example_bus INPUT_YAW = Inr 1 \<and>
   (\<exists>csd' attitude'.
      applyFeedForward example_settings example_bus INPUT_ROLL 10 10 example_data
        = Inr (csd', attitude') \<and> ffFilterAccumulator csd' INPUT_ROLL = - 2)"
proof -
  have t: "GimbalType example_settings = GIMBALTYPE_YAWROLLPITCH"
    by simp
  have r: "0 < OutputRange example_settings INPUT_PITCH \<and>
           OutputRange example_settings INPUT_PITCH < \<bar>AttitudeActual example_bus INPUT_PITCH\<bar>"
    by simp
  have y: "gimbalTypeCorrection example_settings example_bus INPUT_YAW = Inr 1"
    using gimbal_correction [of example_settings example_bus INPUT_YAW 10 10 example_data] t
    by simp
  have "\<exists>csd' attitude'.
      applyFeedForward example_settings example_bus INPUT_ROLL 10 10 example_data
        = Inr (csd', attitude') \<and> ffFilterAccumulator csd' INPUT_ROLL = - 2"
    using gimbal_correction [of example_settings example_bus INPUT_ROLL 10 10 example_data]
      example_correction
    by (simp add: Let_def)
  then show ?thesis
    using t r y example_correction by blast
qed

text \<open>
  Claim C3. When the feed forward runs for an axis, the accumulator first grows by
  \<open>(attitude - ffLastAttitude) * FeedForward * gimbalTypeCorrection\<close>, \<open>ffLastAttitude\<close>
  becomes the attitude, and the working attitude grows by the accumulator; then the
  accumulator loses the fraction \<open>1 / max 1 (timeConstant / dT)\<close> of itself, where
  \<open>timeConstant\<close> is \<open>AccelTime\<close> if the accumulator is positive and \<open>DecelTime\<close> otherwise,
  and the working attitude grows by the decayed accumulator a second time. The value
  passed to the acceleration limit is therefore \<open>attitude + acc1 + acc2\<close>.
\<close>

theorem feed_forward_order:
  assumes "0 < dT" and "gimbalTypeCorrection cs b i = Inr g"
  shows "\<exists>csd' attitude'. applyFeedForward cs b i dT attitude csd = Inr (csd', attitude') \<and>
     (let acc1 = ffFilterAccumulator csd i
                   + (attitude - ffLastAttitude csd i) * real (FeedForward cs i) * g;
          timeConstant = real (if acc1 > 0 then AccelTime cs i else DecelTime cs i);
          acc2 = acc1 - acc1 / max 1 (timeConstant / dT);
          working = attitude + acc1 + acc2;
          delta = working - ffLastAttitudeFiltered csd i;
          maxDelta = real (MaxAccel cs) * dT / 1000
      in ffLastAttitude csd' i = attitude \<and>
         ffFilterAccumulator csd' i = acc2 \<and>
         attitude' = (if \<bar>delta\<bar> > maxDelta
                      then ffLastAttitudeFiltered csd i + (if delta > 0 then maxDelta else - maxDelta)
                      else working) \<and>
         ffLastAttitudeFiltered csd' i = attitude')"
  using applyFeedForward_result [OF assms(2)] by blast

theorem feed_forward_order_witness:
  "(0::real) < 10 \<and>
   gimbalTypeCorrection example_settings example_bus INPUT_ROLL = Inr (- 1 / 5) \<and>
   (\<exists>csd' attitude'.
      applyFeedForward example_settings example_bus INPUT_ROLL 10 10 example_data
        = Inr (csd', attitude') \<and>
      ffLastAttitude csd' INPUT_ROLL = 10 \<and>
      ffFilterAccumulator csd' INPUT_ROLL = - 2 \<and>
      attitude' = 10 + (- 4) + (- 2))"
proof -
  have p: "(0::real) < 10" by simp
  show ?thesis
    using feed_forward_order [OF p example_correction, of 10 example_data] example_correction
    by (auto simp add: Let_def)
qed



subsection \<open>Elapsed time\<close>

text \<open>
  Claim C7. When the tick counter read in this call is greater than the stored
  \<open>lastSysTime\<close>, \<open>dT\<close> is the difference of the two counters in milliseconds; otherwise
  \<open>dT\<close> is the nominal period of 10 ms, also when the two counters are equal. So \<open>dT\<close> is
  strictly positive in every call, and the divisor \<open>rt + dT\<close> of the attitude filter is
  never zero. (\<open>portTICK_RATE_MS\<close> is the number of milliseconds per tick: it is not zero,
  and the product with the tick difference is assumed to fit the tick type, which it
  always does at one tick per millisecond.) The callback uses this \<open>dT\<close> for all axes.
\<close>

theorem elapsed_time:
  assumes "portTICK_RATE_MS cfg \<noteq> 0"
    and "unat (now - lastT) * unat (portTICK_RATE_MS cfg) < 2 ^ 32"
  shows "(now > lastT \<longrightarrow>
            elapsed_dT cfg now lastT
              = real ((unat now - unat lastT) * unat (portTICK_RATE_MS cfg))) \<and>
         (\<not> now > lastT \<longrightarrow> elapsed_dT cfg now lastT = 10) \<and>
         0 < elapsed_dT cfg now lastT \<and>
         (\<forall>rt::nat. real rt + elapsed_dT cfg now lastT \<noteq> 0) \<and>
         attitudeUpdated cfg cs (b\<lparr>xTaskGetTickCount := now\<rparr>) True
             (csd\<lparr>lastSysTime := lastT\<rparr>, cd)
           = process_axes cfg cs (b\<lparr>xTaskGetTickCount := now\<rparr>) (elapsed_dT cfg now lastT)
               [INPUT_ROLL, INPUT_PITCH, INPUT_YAW] (csd\<lparr>lastSysTime := now\<rparr>, cd)"
proof -
  have a: "unat ((now - lastT) * portTICK_RATE_MS cfg)
             = unat (now - lastT) * unat (portTICK_RATE_MS cfg)"
    using assms(2) unat_mult_lem [of "now - lastT" "portTICK_RATE_MS cfg"] by simp
  have b: "now > lastT \<Longrightarrow> unat (now - lastT) = unat now - unat lastT"
    by (simp add: unat_sub word_less_def word_le_def)
  have c: "now > lastT \<Longrightarrow> 0 < unat now - unat lastT"
    by (simp add: word_less_nat_alt)
  have d: "0 < unat (portTICK_RATE_MS cfg)"
    using assms(1) by (simp add: unat_gt_0)
  have e: "elapsed_dT cfg now lastT = real ((unat now - unat lastT) * unat (portTICK_RATE_MS cfg))"
    if "now > lastT"
    using that a b by (simp only: elapsed_dT_def if_True)
  have k: "0 < (unat now - unat lastT) * unat (portTICK_RATE_MS cfg)" if "now > lastT"
    using c [OF that] d by simp
  have f: "elapsed_dT cfg now lastT = 10" if "\<not> now > lastT"
    using that by (simp add: elapsed_dT_def SAMPLE_PERIOD_MS_def)
  have pos: "0 < elapsed_dT cfg now lastT"
  proof (cases "now > lastT")
    case True
    show ?thesis unfolding e [OF True] using k [OF True] by (simp only: of_nat_0_less_iff)
  next
    case False
    show ?thesis unfolding f [OF False] by simp
  qed
  have nz: "real rt + elapsed_dT cfg now lastT \<noteq> 0" for rt :: nat
    using pos by (simp add: add_nonneg_pos pos_add_strict)
  have t: "attitudeUpdated cfg cs (b\<lparr>xTaskGetTickCount := now\<rparr>) True
             (csd\<lparr>lastSysTime := lastT\<rparr>, cd)
           = process_axes cfg cs (b\<lparr>xTaskGetTickCount := now\<rparr>) (elapsed_dT cfg now lastT)
               [INPUT_ROLL, INPUT_PITCH, INPUT_YAW] (csd\<lparr>lastSysTime := now\<rparr>, cd)"
    by (simp add: attitudeUpdated_def Let_def)
  show ?thesis
    using e f pos nz t by blast
qed

theorem elapsed_time_witness:
  "portTICK_RATE_MS example_build \<noteq> 0 \<and>
   unat ((1025::32 word) - 1000) * unat (portTICK_RATE_MS example_build) < 2 ^ 32 \<and>
   unat ((1000::32 word) - 1000) * unat (portTICK_RATE_MS example_build) < 2 ^ 32 \<and>
   elapsed_dT example_build 1025 1000 = 25 \<and>
   elapsed_dT example_build 1000 1000 = 10 \<and>
   0 < elapsed_dT example_build 1000 1000"
proof -
  have n: "portTICK_RATE_MS example_build \<noteq> 0" by simp
  have h1: "unat ((1025::32 word) - 1000) * unat (portTICK_RATE_MS example_build) < 2 ^ 32"
    by simp
  have h2: "unat ((1000::32 word) - 1000) * unat (portTICK_RATE_MS example_build) < 2 ^ 32"
    by simp
  show ?thesis
    using elapsed_time [OF n h1, of example_settings example_bus example_data "\<lambda>_. 0"]
      elapsed_time [OF n h2, of example_settings example_bus example_data "\<lambda>_. 0"] n h1 h2
    by simp
qed

subsection \<open>The attitude filter\<close>







lemma calculate_servo_output_returns:
  assumes "GimbalType cs \<noteq> GIMBALTYPE_UNKNOWN"
  shows "\<exists>c2 a. calculate_servo_output cfg cs b dT i c = Inr (c2, a)"
proof -
  have "\<exists>g. gimbalTypeCorrection cs b i = Inr g"
    using assms by (cases "GimbalType cs") (simp_all add: gimbalTypeCorrection_def Let_def)
  then have "\<exists>c2 a'. applyFeedForward cs b i dT a c' = Inr (c2, a')" for a c'
    using applyFeedForward_result [of cs b i _ dT a c'] by blast
  then show ?thesis
    by (simp add: calculate_servo_output_def Let_def)
qed

lemma calculate_servo_output_inputs:
  "calculate_servo_output cfg cs b dT i c = Inr (c2, a) \<Longrightarrow> inputs c2 = inputs c"
  by (auto simp add: calculate_servo_output_def Let_def
           dest: applyFeedForward_inputs split: if_splits)






subsection \<open>The control input\<close>

lemma read_control_input_axislock:
  assumes "Input cs i = INPUT_ACCESSORY n" and "AccessoryDesired b n = Some sample"
    and "StabilizationMode cs i = STABILIZATIONMODE_AXISLOCK"
  shows "read_control_input cs b dT i csd =
           (if \<bar>sample * InputRate cs i\<bar> > MaxAxisLockRate cs
            then Inr (csd\<lparr>inputs := (inputs csd)
                   (i := bound (inputs csd i + sample * InputRate cs i * dT / 1000) (InputRange cs i))\<rparr>)
            else Inr csd)"
  using assms by (simp add: read_control_input_def Let_def)

text \<open>
  Claim C6. In axis-lock mode, with \<open>rate = sample * InputRate\<close>: when
  \<open>\<bar>rate\<bar> > MaxAxisLockRate\<close> the stored input becomes
  \<open>bound (input + rate * dT / 1000) InputRange\<close>, so its magnitude is at most \<open>InputRange\<close>
  afterwards (for a non-negative \<open>InputRange\<close>, as \<open>bound\<close> requires of its limit); when
  \<open>\<bar>rate\<bar> \<le> MaxAxisLockRate\<close> the state is left exactly as it was. With
  \<open>InputRate = 1\<close> and \<open>MaxAxisLockRate = 0.5\<close>, a sample of 0.3 leaves the stored input
  unchanged in every call, and a sample of 0.8 never decreases a stored input that is
  within \<open>InputRange\<close>: it strictly increases it while it is below \<open>InputRange\<close> and never
  takes it above \<open>InputRange\<close>.
\<close>

theorem axis_lock_trim:
  assumes "Input cs i = INPUT_ACCESSORY n" and "AccessoryDesired b n = Some sample"
    and "StabilizationMode cs i = STABILIZATIONMODE_AXISLOCK"
  shows "\<exists>csd'. read_control_input cs b dT i csd = Inr csd' \<and>
     (let rate = sample * InputRate cs i in
        (\<bar>rate\<bar> > MaxAxisLockRate cs \<longrightarrow>
           inputs csd' i = bound (inputs csd i + rate * dT / 1000) (InputRange cs i)
           \<and> (0 \<le> InputRange cs i \<longrightarrow> \<bar>inputs csd' i\<bar> \<le> InputRange cs i)) \<and>
        (\<bar>rate\<bar> \<le> MaxAxisLockRate cs \<longrightarrow> csd' = csd)) \<and>
     (InputRate cs i = 1 \<and> MaxAxisLockRate cs = 1 / 2 \<longrightarrow>
        (sample = 3 / 10 \<longrightarrow> inputs csd' i = inputs csd i) \<and>
        (sample = 8 / 10 \<and> 0 < dT \<and> inputs csd i \<le> InputRange cs i \<longrightarrow>
           inputs csd i \<le> inputs csd' i
           \<and> (inputs csd i < InputRange cs i \<longrightarrow> inputs csd i < inputs csd' i)
           \<and> (0 \<le> InputRange cs i \<longrightarrow> inputs csd' i \<le> InputRange cs i)))"
proof (cases "\<bar>sample * InputRate cs i\<bar> > MaxAxisLockRate cs")
  case True
  let ?d = "sample * InputRate cs i * dT / 1000"
  let ?v = "bound (inputs csd i + ?d) (InputRange cs i)"
  let ?csd' = "csd\<lparr>inputs := (inputs csd)(i := ?v)\<rparr>"
  have r: "read_control_input cs b dT i csd = Inr ?csd'"
    using read_control_input_axislock [OF assms] True by simp
  have v: "inputs ?csd' i = ?v" by simp
  have pos: "InputRate cs i = 1 \<Longrightarrow> sample = 8 / 10 \<Longrightarrow> 0 < dT \<Longrightarrow> 0 < ?d"
    by simp
  have low: "InputRate cs i = 1 \<Longrightarrow> MaxAxisLockRate cs = 1 / 2 \<Longrightarrow> sample \<noteq> 3 / 10"
    using True by auto
  have "(let rate = sample * InputRate cs i in
        (\<bar>rate\<bar> > MaxAxisLockRate cs \<longrightarrow>
           inputs ?csd' i = bound (inputs csd i + rate * dT / 1000) (InputRange cs i)
           \<and> (0 \<le> InputRange cs i \<longrightarrow> \<bar>inputs ?csd' i\<bar> \<le> InputRange cs i)) \<and>
        (\<bar>rate\<bar> \<le> MaxAxisLockRate cs \<longrightarrow> ?csd' = csd))"
    unfolding Let_def v using True bound_abs [of "InputRange cs i" "inputs csd i + ?d"] by auto
  moreover have "InputRate cs i = 1 \<and> MaxAxisLockRate cs = 1 / 2 \<longrightarrow>
        (sample = 3 / 10 \<longrightarrow> inputs ?csd' i = inputs csd i) \<and>
        (sample = 8 / 10 \<and> 0 < dT \<and> inputs csd i \<le> InputRange cs i \<longrightarrow>
           inputs csd i \<le> inputs ?csd' i
           \<and> (inputs csd i < InputRange cs i \<longrightarrow> inputs csd i < inputs ?csd' i)
           \<and> (0 \<le> InputRange cs i \<longrightarrow> inputs ?csd' i \<le> InputRange cs i))"
    unfolding v using low pos bound_increase [of ?d "inputs csd i" "InputRange cs i"] by blast
  ultimately show ?thesis using r by blast
next
  case False
  have r: "read_control_input cs b dT i csd = Inr csd"
    using read_control_input_axislock [OF assms] False by simp
  have "InputRate cs i = 1 \<Longrightarrow> MaxAxisLockRate cs = 1 / 2 \<Longrightarrow> sample \<noteq> 8 / 10"
    using False by auto
  then show ?thesis
    unfolding r Let_def using False by auto
qed

theorem axis_lock_trim_witness:
  "Input example_settings INPUT_ROLL = INPUT_ACCESSORY 0 \<and>
   AccessoryDesired example_bus 0 = Some (8 / 10) \<and>
   StabilizationMode example_settings INPUT_ROLL = STABILIZATIONMODE_AXISLOCK \<and>
   (\<exists>csd'. read_control_input example_settings example_bus 10 INPUT_ROLL example_data = Inr csd'
      \<and> inputs csd' INPUT_ROLL = 1 / 125
      \<and> inputs example_data INPUT_ROLL < inputs csd' INPUT_ROLL) \<and>
   read_control_input example_settings example_bus 10 INPUT_PITCH example_data = Inr example_data"
proof -
  have a: "Input example_settings INPUT_ROLL = INPUT_ACCESSORY 0"
    "AccessoryDesired example_bus 0 = Some (8 / 10)"
    "StabilizationMode example_settings INPUT_ROLL = STABILIZATIONMODE_AXISLOCK"
    by simp_all
  have p: "Input example_settings INPUT_PITCH = INPUT_ACCESSORY 1"
    "AccessoryDesired example_bus 1 = Some (3 / 10)"
    "StabilizationMode example_settings INPUT_PITCH = STABILIZATIONMODE_AXISLOCK"
    by simp_all
  have 1: "\<exists>csd'. read_control_input example_settings example_bus 10 INPUT_ROLL example_data = Inr csd'
      \<and> inputs csd' INPUT_ROLL = 1 / 125
      \<and> inputs example_data INPUT_ROLL < inputs csd' INPUT_ROLL"
    using axis_lock_trim [OF a, of 10 example_data] by (auto simp add: Let_def bound_def)
  have 2: "read_control_input example_settings example_bus 10 INPUT_PITCH example_data
             = Inr example_data"
    using axis_lock_trim [OF p, of 10 example_data] by (auto simp add: Let_def)
  show ?thesis using a 1 2 by blast
qed

subsection \<open>One call of the callback\<close>

lemma slot_inputs: "slot i c = slot i d \<Longrightarrow> inputs c i = inputs d i"
  by (simp add: slot_def)

lemma slot_attitudeFiltered: "slot i c = slot i d \<Longrightarrow> attitudeFiltered c i = attitudeFiltered d i"
  by (simp add: slot_def)

lemma slot_attitudeFiltered_upd:
  "slot i c = slot i d \<Longrightarrow>
   slot i (c\<lparr>attitudeFiltered := (attitudeFiltered c)(i := v)\<rparr>)
     = slot i (d\<lparr>attitudeFiltered := (attitudeFiltered d)(i := v)\<rparr>)"
  by (simp add: slot_def)

lemma slot_attitudeFiltered_other:
  "j \<noteq> i \<Longrightarrow> slot i (c\<lparr>attitudeFiltered := (attitudeFiltered c)(j := v)\<rparr>) = slot i c"
  by (simp add: slot_def)

lemma read_control_input_cong:
  assumes "slot i c = slot i d" and "read_control_input cs b dT i c = Inr c1"
  shows "\<exists>d1. read_control_input cs b dT i d = Inr d1 \<and> slot i d1 = slot i c1"
  using assms
  by (auto simp add: read_control_input_def slot_def Let_def
           split: input_source.splits option.splits stabilization_mode.splits if_splits)

lemma read_control_input_other:
  assumes "j \<noteq> i" and "read_control_input cs b dT j c = Inr c1"
  shows "slot i c1 = slot i c"
  using assms
  by (auto simp add: read_control_input_def slot_def Let_def
           split: input_source.splits option.splits stabilization_mode.splits if_splits)

lemma read_control_input_returns:
  assumes "StabilizationMode cs i \<noteq> STABILIZATIONMODE_UNKNOWN"
  shows "\<exists>c1. read_control_input cs b dT i c = Inr c1"
  using assms
  by (cases "StabilizationMode cs i")
     (simp_all add: read_control_input_def Let_def split: input_source.splits option.splits)

lemma read_control_input_hold:
  assumes "Input cs i = INPUT_NONE \<or> (\<exists>n. Input cs i = INPUT_ACCESSORY n \<and> AccessoryDesired b n = None)"
  shows "read_control_input cs b dT i csd = Inr csd"
  using assms by (auto simp add: read_control_input_def)

lemma applyFeedForward_eq:
  assumes "slot i c = slot i d"
  shows "map_sum id (\<lambda>(c2, a'). (slot i c2, a')) (applyFeedForward cs b i dT a c)
           = map_sum id (\<lambda>(d2, a'). (slot i d2, a')) (applyFeedForward cs b i dT a d)"
proof (cases "gimbalTypeCorrection cs b i")
  case (Inl e)
  then show ?thesis by (simp add: applyFeedForward_def)
next
  case (Inr g)
  have e: "inputs c i = inputs d i" "attitudeFiltered c i = attitudeFiltered d i"
    "ffLastAttitude c i = ffLastAttitude d i"
    "ffLastAttitudeFiltered c i = ffLastAttitudeFiltered d i"
    "ffFilterAccumulator c i = ffFilterAccumulator d i"
    using assms by (simp_all add: slot_def)
  show ?thesis
    unfolding applyFeedForward_def Inr Let_def slot_def
    by (simp add: e split del: if_split cong del: if_weak_cong)
qed

lemma applyFeedForward_cong:
  assumes "slot i c = slot i d" and "applyFeedForward cs b i dT a c = Inr (c2, a')"
  shows "\<exists>d2. applyFeedForward cs b i dT a d = Inr (d2, a') \<and> slot i d2 = slot i c2"
  using applyFeedForward_eq [OF assms(1), of cs b dT a] assms(2)
  by (cases "applyFeedForward cs b i dT a d") auto

lemma applyFeedForward_other:
  assumes "j \<noteq> i" and "applyFeedForward cs b j dT a c = Inr (c2, a')"
  shows "slot i c2 = slot i c"
  using assms
  by (auto simp add: applyFeedForward_def slot_def Let_def split: sum.splits)

lemma calculate_servo_output_cong:
  assumes "slot i c = slot i d" and "calculate_servo_output cfg cs b dT i c = Inr (c2, a')"
  shows "\<exists>d2. calculate_servo_output cfg cs b dT i d = Inr (d2, a') \<and> slot i d2 = slot i c2"
proof (cases "USE_GIMBAL_LPF cfg")
  case True
  let ?v = "lpf (ResponseTime cs i) dT (AttitudeActual b i) (attitudeFiltered c i)"
  have v: "lpf (ResponseTime cs i) dT (AttitudeActual b i) (attitudeFiltered d i) = ?v"
    using slot_attitudeFiltered [OF assms(1)] by simp
  show ?thesis
    using assms(2) True slot_attitudeFiltered_upd [OF assms(1), of ?v]
    unfolding calculate_servo_output_def Let_def v
    by (auto dest: applyFeedForward_cong split: if_splits)
next
  case False
  show ?thesis
    using assms False unfolding calculate_servo_output_def Let_def
    by (auto dest: applyFeedForward_cong split: if_splits)
qed

lemma calculate_servo_output_other:
  assumes "j \<noteq> i" and "calculate_servo_output cfg cs b dT j c = Inr (c2, a')"
  shows "slot i c2 = slot i c"
  using assms slot_attitudeFiltered_other [OF assms(1), of c]
  unfolding calculate_servo_output_def Let_def
  by (auto dest!: applyFeedForward_other [OF assms(1)] split: if_splits)

lemma process_axis_own:
  assumes "process_axis cfg cs b dT i (c, cd) = Inr (c', cd')"
  shows "axis_done cfg cs b dT i c c' cd'"
  using assms unfolding process_axis_def axis_done_def Let_def
  by (auto split: sum.splits)

lemma process_axis_other:
  assumes "j \<noteq> i" and "process_axis cfg cs b dT j (c, cd) = Inr (c', cd')"
  shows "slot i c' = slot i c \<and> cd' i = cd i"
  using assms unfolding process_axis_def Let_def
  by (auto split: sum.splits
           dest!: read_control_input_other [OF assms(1)] calculate_servo_output_other [OF assms(1)])

lemma process_axis_returns:
  assumes "StabilizationMode cs i \<noteq> STABILIZATIONMODE_UNKNOWN"
    and "GimbalType cs \<noteq> GIMBALTYPE_UNKNOWN"
  shows "\<exists>s'. process_axis cfg cs b dT i s = Inr s'"
proof -
  obtain c1 where 1: "read_control_input cs b dT i (fst s) = Inr c1"
    using read_control_input_returns [OF assms(1)] by blast
  obtain c2 a where 2: "calculate_servo_output cfg cs b dT i c1 = Inr (c2, a)"
    using calculate_servo_output_returns [OF assms(2)] by blast
  show ?thesis by (simp add: process_axis_def 1 2 Let_def)
qed

lemma process_axes_returns:
  assumes "\<forall>j. StabilizationMode cs j \<noteq> STABILIZATIONMODE_UNKNOWN"
    and "GimbalType cs \<noteq> GIMBALTYPE_UNKNOWN"
  shows "\<exists>s'. process_axes cfg cs b dT axes s = Inr s'"
proof (induction axes arbitrary: s)
  case Nil
  show ?case by simp
next
  case (Cons i rest)
  obtain s1 where 1: "process_axis cfg cs b dT i s = Inr s1"
    using process_axis_returns [of cs i] assms by blast
  show ?case using Cons [of s1] by (simp add: 1)
qed

lemma attitudeUpdated_returns:
  assumes "\<forall>j. StabilizationMode cs j \<noteq> STABILIZATIONMODE_UNKNOWN"
    and "GimbalType cs \<noteq> GIMBALTYPE_UNKNOWN"
  shows "\<exists>csd' cd'. attitudeUpdated cfg cs b ev s = Inr (csd', cd')"
proof (cases ev)
  case False
  then show ?thesis by (cases s) (simp add: attitudeUpdated_def)
next
  case True
  let ?dT = "elapsed_dT cfg (xTaskGetTickCount b) (lastSysTime (fst s))"
  obtain s' where
    "process_axes cfg cs b ?dT [INPUT_ROLL, INPUT_PITCH, INPUT_YAW]
       ((fst s)\<lparr>lastSysTime := xTaskGetTickCount b\<rparr>, snd s) = Inr s'"
    using process_axes_returns [OF assms] by blast
  then show ?thesis
    using True by (cases s') (simp add: attitudeUpdated_def Let_def del: process_axes.simps)
qed

lemma axis_done_start:
  assumes "slot i c = slot i d" and "axis_done cfg cs b dT i c cf cdf"
  shows "axis_done cfg cs b dT i d cf cdf"
proof -
  obtain c1 c2 a where
    1: "read_control_input cs b dT i c = Inr c1" and
    2: "calculate_servo_output cfg cs b dT i c1 = Inr (c2, a)" and
    3: "slot i cf = slot i c2" and
    4: "cdf i = bound ((a + inputs cf i) / OutputRange cs i) 1"
    using assms(2) unfolding axis_done_def by blast
  obtain d1 where 5: "read_control_input cs b dT i d = Inr d1" and 6: "slot i d1 = slot i c1"
    using read_control_input_cong [OF assms(1) 1] by blast
  obtain d2 where 7: "calculate_servo_output cfg cs b dT i d1 = Inr (d2, a)"
    and 8: "slot i d2 = slot i c2"
    using calculate_servo_output_cong [OF 6 [symmetric] 2] by blast
  show ?thesis unfolding axis_done_def using 5 7 8 3 4 by auto
qed

lemma axis_done_end:
  assumes "slot i cf' = slot i cf" and "cdf' i = cdf i" and "axis_done cfg cs b dT i c cf cdf"
  shows "axis_done cfg cs b dT i c cf' cdf'"
  using assms slot_inputs [OF assms(1)] unfolding axis_done_def by auto

lemma process_axes_three:
  assumes "process_axes cfg cs b dT [i1, i2, i3] s = Inr s3"
  shows "\<exists>s1 s2. process_axis cfg cs b dT i1 s = Inr s1 \<and> process_axis cfg cs b dT i2 s1 = Inr s2
           \<and> process_axis cfg cs b dT i3 s2 = Inr s3"
  using assms by (auto split: sum.splits)

lemma tick_axis_done:
  assumes "attitudeUpdated cfg cs b True (csd, cd) = Inr (csd', cd')"
  shows "axis_done cfg cs b (elapsed_dT cfg (xTaskGetTickCount b) (lastSysTime csd)) i csd csd' cd'"
proof -
  let ?dT = "elapsed_dT cfg (xTaskGetTickCount b) (lastSysTime csd)"
  let ?c0 = "csd\<lparr>lastSysTime := xTaskGetTickCount b\<rparr>"
  have s0: "slot i ?c0 = slot i csd" for i by (simp add: slot_def)
  have "process_axes cfg cs b ?dT [INPUT_ROLL, INPUT_PITCH, INPUT_YAW] (?c0, cd) = Inr (csd', cd')"
    using assms by (simp add: attitudeUpdated_def Let_def)
  then obtain c1 d1 c2 d2 where
    r: "process_axis cfg cs b ?dT INPUT_ROLL (?c0, cd) = Inr (c1, d1)" and
    p: "process_axis cfg cs b ?dT INPUT_PITCH (c1, d1) = Inr (c2, d2)" and
    y: "process_axis cfg cs b ?dT INPUT_YAW (c2, d2) = Inr (csd', cd')"
    using process_axes_three by (metis surj_pair)
  show ?thesis
  proof (cases i)
    case INPUT_ROLL
    have a: "axis_done cfg cs b ?dT INPUT_ROLL csd c1 d1"
      using axis_done_start [OF s0 process_axis_own [OF r]] .
    have 1: "slot INPUT_ROLL c2 = slot INPUT_ROLL c1 \<and> d2 INPUT_ROLL = d1 INPUT_ROLL"
      using process_axis_other [OF _ p, of INPUT_ROLL] by simp
    have 2: "slot INPUT_ROLL csd' = slot INPUT_ROLL c2 \<and> cd' INPUT_ROLL = d2 INPUT_ROLL"
      using process_axis_other [OF _ y, of INPUT_ROLL] by simp
    show ?thesis unfolding INPUT_ROLL
      using axis_done_end [OF _ _ a, of csd' cd'] 1 2 by simp
  next
    case INPUT_PITCH
    have 0: "slot INPUT_PITCH c1 = slot INPUT_PITCH csd"
      using process_axis_other [OF _ r, of INPUT_PITCH] s0 by simp
    have a: "axis_done cfg cs b ?dT INPUT_PITCH csd c2 d2"
      using axis_done_start [OF 0 process_axis_own [OF p]] .
    have 2: "slot INPUT_PITCH csd' = slot INPUT_PITCH c2 \<and> cd' INPUT_PITCH = d2 INPUT_PITCH"
      using process_axis_other [OF _ y, of INPUT_PITCH] by simp
    show ?thesis unfolding INPUT_PITCH
      using axis_done_end [OF _ _ a, of csd' cd'] 2 by simp
  next
    case INPUT_YAW
    have 0: "slot INPUT_YAW c1 = slot INPUT_YAW csd"
      using process_axis_other [OF _ r, of INPUT_YAW] s0 by simp
    have 1: "slot INPUT_YAW c2 = slot INPUT_YAW csd"
      using process_axis_other [OF _ p, of INPUT_YAW] 0 by simp
    show ?thesis unfolding INPUT_YAW
      using axis_done_start [OF 1 process_axis_own [OF y]] .
  qed
qed

text \<open>
  Claim C8. For every axis whose input setting is \<open>None\<close>, or whose accessory lookup fails in
  this call, the control-input step returns the state untouched and raises nothing (the
  stabilisation mode is not even looked at); the rest of the loop body runs on the old
  stored input and, unless the feed forward meets an unknown gimbal type, writes the
  axis's command; and after every call of the callback that returns, the stored input of
  that axis is the one from before the call.
\<close>

theorem trim_hold:
  assumes "Input cs i = INPUT_NONE
           \<or> (\<exists>n. Input cs i = INPUT_ACCESSORY n \<and> AccessoryDesired b n = None)"
  shows "read_control_input cs b dT i csd = Inr csd \<and>
         process_axis cfg cs b dT i (csd, cd)
           = (case calculate_servo_output cfg cs b dT i csd of
                Inl e \<Rightarrow> Inl e
              | Inr (c2, attitude) \<Rightarrow>
                  Inr (c2, cd(i := bound ((attitude + inputs csd i) / OutputRange cs i) 1))) \<and>
         (GimbalType cs \<noteq> GIMBALTYPE_UNKNOWN \<longrightarrow>
            (\<exists>c2 cd2. process_axis cfg cs b dT i (csd, cd) = Inr (c2, cd2)
                \<and> inputs c2 i = inputs csd i)) \<and>
         (\<forall>ev csd' cd'. attitudeUpdated cfg cs b ev (csd, cd) = Inr (csd', cd')
            \<longrightarrow> inputs csd' i = inputs csd i)"
proof -
  have h: "read_control_input cs b dT i c = Inr c" for dT c
    using read_control_input_hold [OF assms] .
  have 2: "process_axis cfg cs b dT i (csd, cd)
           = (case calculate_servo_output cfg cs b dT i csd of
                Inl e \<Rightarrow> Inl e
              | Inr (c2, attitude) \<Rightarrow>
                  Inr (c2, cd(i := bound ((attitude + inputs csd i) / OutputRange cs i) 1)))"
    by (auto simp add: process_axis_def h Let_def
             dest: calculate_servo_output_inputs split: sum.splits)
  have 3: "\<exists>c2 cd2. process_axis cfg cs b dT i (csd, cd) = Inr (c2, cd2)
                \<and> inputs c2 i = inputs csd i"
    if g: "GimbalType cs \<noteq> GIMBALTYPE_UNKNOWN"
  proof -
    obtain c2 a where c: "calculate_servo_output cfg cs b dT i csd = Inr (c2, a)"
      using calculate_servo_output_returns [OF g] by blast
    show ?thesis unfolding 2 c using calculate_servo_output_inputs [OF c] by simp
  qed
  have 4: "inputs csd' i = inputs csd i"
    if t: "attitudeUpdated cfg cs b ev (csd, cd) = Inr (csd', cd')" for ev csd' cd'
  proof (cases ev)
    case False
    then show ?thesis using t by (simp add: attitudeUpdated_def)
  next
    case True
    have t': "attitudeUpdated cfg cs b True (csd, cd) = Inr (csd', cd')"
      using t True by simp
    obtain c1 c2 a where
      r: "read_control_input cs b (elapsed_dT cfg (xTaskGetTickCount b) (lastSysTime csd)) i csd
            = Inr c1" and
      c: "calculate_servo_output cfg cs b
            (elapsed_dT cfg (xTaskGetTickCount b) (lastSysTime csd)) i c1 = Inr (c2, a)" and
      s: "slot i csd' = slot i c2"
      using tick_axis_done [OF t', of i] unfolding axis_done_def by blast
    have "c1 = csd" using r h by simp
    then show ?thesis
      using slot_inputs [OF s] calculate_servo_output_inputs [OF c] by simp
  qed
  show ?thesis using h 2 3 4 by blast
qed

theorem trim_hold_witness:
  "(\<exists>n. Input example_settings INPUT_YAW = INPUT_ACCESSORY n \<and> AccessoryDesired example_bus n = None) \<and>
   read_control_input example_settings example_bus 25 INPUT_YAW example_data = Inr example_data \<and>
   (\<exists>csd' cd'. attitudeUpdated example_build example_settings example_bus True
                  (example_data, \<lambda>_. 0) = Inr (csd', cd')
      \<and> inputs csd' INPUT_YAW = inputs example_data INPUT_YAW)"
proof -
  have a: "Input example_settings INPUT_YAW = INPUT_NONE
           \<or> (\<exists>n. Input example_settings INPUT_YAW = INPUT_ACCESSORY n
                  \<and> AccessoryDesired example_bus n = None)"
    by simp
  obtain csd' cd' where
    t: "attitudeUpdated example_build example_settings example_bus True (example_data, \<lambda>_. 0)
          = Inr (csd', cd')"
    using attitudeUpdated_returns [of example_settings] by fastforce
  show ?thesis
    using trim_hold [OF a, of 25 example_data example_build "\<lambda>_. 0"] t a by auto
qed

text \<open>
  Claim C1. In every call of the callback that runs the axis loop to its end, the command
  written for each axis is \<open>bound ((attitude + input) / OutputRange) 1\<close>, where \<open>attitude\<close>
  is the value that the filter and feed-forward stages of this call produce for the axis
  and \<open>input\<close> is the axis's stored control input after this call. Hence, for a non-zero
  \<open>OutputRange\<close>, every command lies in \<open>[-1, 1]\<close>; and for \<open>OutputRange = 50\<close>, attitude 25
  and input 25 the command is exactly 1. The loop runs to its end whenever the settings
  hold recognised stabilisation modes and a recognised gimbal type.
\<close>

theorem output_command:
  "(let dT = elapsed_dT cfg (xTaskGetTickCount b) (lastSysTime csd) in
     ((\<forall>j. StabilizationMode cs j \<noteq> STABILIZATIONMODE_UNKNOWN)
        \<and> GimbalType cs \<noteq> GIMBALTYPE_UNKNOWN
      \<longrightarrow> (\<exists>csd' cd'. attitudeUpdated cfg cs b True (csd, cd) = Inr (csd', cd'))) \<and>
     (\<forall>csd' cd'. attitudeUpdated cfg cs b True (csd, cd) = Inr (csd', cd') \<longrightarrow>
        (\<exists>c1 c2 attitude.
            read_control_input cs b dT i csd = Inr c1 \<and>
            calculate_servo_output cfg cs b dT i c1 = Inr (c2, attitude) \<and>
            inputs csd' i = inputs c2 i \<and>
            cd' i = bound ((attitude + inputs csd' i) / OutputRange cs i) 1 \<and>
            (OutputRange cs i = 50 \<and> attitude = 25 \<and> inputs csd' i = 25 \<longrightarrow> cd' i = 1)) \<and>
        (OutputRange cs i \<noteq> 0 \<longrightarrow> - 1 \<le> cd' i \<and> cd' i \<le> 1)))"
proof -
  let ?dT = "elapsed_dT cfg (xTaskGetTickCount b) (lastSysTime csd)"
  have 1: "\<exists>csd' cd'. attitudeUpdated cfg cs b True (csd, cd) = Inr (csd', cd')"
    if "(\<forall>j. StabilizationMode cs j \<noteq> STABILIZATIONMODE_UNKNOWN)
          \<and> GimbalType cs \<noteq> GIMBALTYPE_UNKNOWN"
    using attitudeUpdated_returns [of cs cfg b True "(csd, cd)"] that by blast
  have 2: "(\<exists>c1 c2 attitude.
            read_control_input cs b ?dT i csd = Inr c1 \<and>
            calculate_servo_output cfg cs b ?dT i c1 = Inr (c2, attitude) \<and>
            inputs csd' i = inputs c2 i \<and>
            cd' i = bound ((attitude + inputs csd' i) / OutputRange cs i) 1 \<and>
            (OutputRange cs i = 50 \<and> attitude = 25 \<and> inputs csd' i = 25 \<longrightarrow> cd' i = 1)) \<and>
        (OutputRange cs i \<noteq> 0 \<longrightarrow> - 1 \<le> cd' i \<and> cd' i \<le> 1)"
    if t: "attitudeUpdated cfg cs b True (csd, cd) = Inr (csd', cd')" for csd' cd'
  proof -
    obtain c1 c2 a where
      r: "read_control_input cs b ?dT i csd = Inr c1" and
      c: "calculate_servo_output cfg cs b ?dT i c1 = Inr (c2, a)" and
      s: "slot i csd' = slot i c2" and
      o: "cd' i = bound ((a + inputs csd' i) / OutputRange cs i) 1"
      using tick_axis_done [OF t, of i] unfolding axis_done_def by blast
    have e: "OutputRange cs i = 50 \<and> a = 25 \<and> inputs csd' i = 25 \<longrightarrow> cd' i = 1"
      unfolding o by (simp add: bound_def)
    have "- 1 \<le> cd' i \<and> cd' i \<le> 1"
      unfolding o using bound_range [of 1] by simp
    then show ?thesis
      using r c slot_inputs [OF s] o e by blast
  qed
  show ?thesis
    unfolding Let_def using 1 2 by blast
qed

theorem output_command_witness:
  "(\<forall>j. StabilizationMode mapper_settings j \<noteq> STABILIZATIONMODE_UNKNOWN) \<and>
   GimbalType mapper_settings \<noteq> GIMBALTYPE_UNKNOWN \<and>
   OutputRange mapper_settings INPUT_ROLL \<noteq> 0 \<and>
   (\<exists>csd' cd'. attitudeUpdated example_build mapper_settings mapper_bus True
                  (mapper_data, \<lambda>_. 0) = Inr (csd', cd')
      \<and> cd' INPUT_ROLL = 1 \<and> - 1 \<le> cd' INPUT_ROLL \<and> cd' INPUT_ROLL \<le> 1)"
proof -
  have v: "(\<forall>j. StabilizationMode mapper_settings j \<noteq> STABILIZATIONMODE_UNKNOWN)
             \<and> GimbalType mapper_settings \<noteq> GIMBALTYPE_UNKNOWN"
    by simp
  have n: "OutputRange mapper_settings INPUT_ROLL \<noteq> 0" by simp
  have d: "elapsed_dT example_build (xTaskGetTickCount mapper_bus) (lastSysTime mapper_data) = 10"
    by (simp add: elapsed_dT_def)
  have r: "read_control_input mapper_settings mapper_bus 10 INPUT_ROLL mapper_data = Inr mapper_data"
    by (simp add: read_control_input_def)
  have c: "calculate_servo_output example_build mapper_settings mapper_bus 10 INPUT_ROLL mapper_data
             = Inr (mapper_data\<lparr>attitudeFiltered := (attitudeFiltered mapper_data)(INPUT_ROLL := 25)\<rparr>, 25)"
    by (simp add: calculate_servo_output_def lpf_def Let_def)
  note t = output_command [of example_build mapper_bus mapper_data mapper_settings "\<lambda>_. 0"
      INPUT_ROLL, unfolded Let_def d]
  obtain csd' cd' where
    u: "attitudeUpdated example_build mapper_settings mapper_bus True (mapper_data, \<lambda>_. 0)
          = Inr (csd', cd')"
    using t v by blast
  obtain c1 c2 attitude where
    1: "read_control_input mapper_settings mapper_bus 10 INPUT_ROLL mapper_data = Inr c1" and
    2: "calculate_servo_output example_build mapper_settings mapper_bus 10 INPUT_ROLL c1
          = Inr (c2, attitude)" and
    3: "inputs csd' INPUT_ROLL = inputs c2 INPUT_ROLL" and
    4: "cd' INPUT_ROLL
          = bound ((attitude + inputs csd' INPUT_ROLL) / OutputRange mapper_settings INPUT_ROLL) 1"
    using t u by blast
  have 5: "c1 = mapper_data" using 1 r by simp
  have 6: "attitude = 25" "inputs c2 INPUT_ROLL = 25"
    using 2 c unfolding 5 by auto
  have 7: "cd' INPUT_ROLL = 1"
    unfolding 4 3 6 by (simp add: bound_def)
  show ?thesis using v n u 7 by auto
qed

end
